theory Spec2Isabelle
  imports Complex_Main "HOL-Library.Word"
begin

section \<open>Strings\<close>

text \<open>
  A JavaScript string is a sequence of UTF-16 code units. The Thai literals of the
  sources lie in the Basic Multilingual Plane, one code unit per character, and are
  written out below as code units; \<open>asc\<close> embeds an ASCII literal.
\<close>

type_synonym jsstring = "16 word list"

definition asc :: "string \<Rightarrow> jsstring" where
  "asc s = map of_char s"

definition newline :: jsstring where
  "newline = [0x000A]"

text \<open>\<open>Array.prototype.join\<close> on an array of strings.\<close>

fun js_join :: "jsstring \<Rightarrow> jsstring list \<Rightarrow> jsstring" where
  "js_join sep [] = []"
| "js_join sep [x] = x"
| "js_join sep (x # y # ys) = x @ sep @ js_join sep (y # ys)"

text \<open>
  \<open>String.prototype.split\<close> with a one-unit separator, and an indexed read of the
  resulting array, which gives \<open>undefined\<close> (here \<open>None\<close>) past the end.
\<close>

fun js_split :: "16 word \<Rightarrow> jsstring \<Rightarrow> jsstring list" where
  "js_split c [] = [] # []"
| "js_split c (x # xs) =
     (if x = c then [] # js_split c xs
      else (case js_split c xs of
              [] \<Rightarrow> [x] # []
            | w # ws \<Rightarrow> (x # w) # ws))"

definition js_index :: "'a list \<Rightarrow> nat \<Rightarrow> 'a option" where
  "js_index xs i = (if i < length xs then Some (xs ! i) else None)"

text \<open>Truthiness of an optional string: \<open>undefined\<close> and \<open>""\<close> are falsy.\<close>

definition truthy :: "jsstring option \<Rightarrow> bool" where
  "truthy v = (case v of None \<Rightarrow> False | Some s \<Rightarrow> s \<noteq> [])"

section \<open>Data model (types.ts)\<close>

datatype Status = IDLE | RECORDING | PROCESSING | DONE

record TranscriptSegment =
  speaker :: "jsstring option"
  segtext :: jsstring
  startTime :: jsstring
  endTime :: jsstring

text \<open>
  The field \<open>text\<close> of the source is \<open>segtext\<close> here, \<open>text\<close> being a keyword
  of the theory language.
\<close>

record Blob =
  blobBytes :: "8 word list"
  blobType :: jsstring

definition blobSize :: "Blob \<Rightarrow> nat" where
  "blobSize b = length (blobBytes b)"

text \<open>\<open>new Blob(parts, {type})\<close>: the bytes of the parts, in order.\<close>

definition newBlob :: "Blob list \<Rightarrow> jsstring \<Rightarrow> Blob" where
  "newBlob parts ty = \<lparr>blobBytes = concat (map blobBytes parts), blobType = ty\<rparr>"

text \<open>
  What a \<open>throw\<close> or a rejected promise carries: an \<open>Error\<close> object with its message,
  or some other value (the \<open>instanceof Error\<close> test of the controller tells them apart).
\<close>

datatype thrown = Error jsstring | NonError

section \<open>Formatting a transcript (App.tsx, formatTranscript)\<close>

definition formatTranscript :: "TranscriptSegment list \<Rightarrow> bool \<Rightarrow> jsstring" where
  "formatTranscript segments forFile =
     (let separator = (if forFile then newline else newline @ newline)
      in js_join separator
           (map (\<lambda>segment.
                   let speakerLabel =
                         (if truthy (speaker segment)
                          then the (speaker segment) @ asc '': '' else [])
                   in asc ''['' @ startTime segment @ asc '' - '' @ endTime segment
                      @ asc ''] '' @ speakerLabel @ segtext segment)
                segments))"

text \<open>
  The line of one segment as the specification words it: with the speaker label when a
  speaker is present, without it otherwise. A speaker is present when the field holds a
  non-empty string: the response schema tells the model to leave the field empty when
  no speaker was identified.
\<close>

definition speakerPresent :: "TranscriptSegment \<Rightarrow> bool" where
  "speakerPresent seg = (case speaker seg of None \<Rightarrow> False | Some s \<Rightarrow> s \<noteq> [])"

definition segmentLine :: "TranscriptSegment \<Rightarrow> jsstring" where
  "segmentLine seg =
     (case speaker seg of
        Some (c # cs) \<Rightarrow>
          concat [asc ''['', startTime seg, asc '' - '', endTime seg, asc ''] '',
                  c # cs, asc '': '', segtext seg]
      | _ \<Rightarrow>
          concat [asc ''['', startTime seg, asc '' - '', endTime seg, asc ''] '',
                  segtext seg])"

definition exportedText :: "TranscriptSegment list \<Rightarrow> jsstring" where
  "exportedText segments = formatTranscript segments True"

definition copiedText :: "TranscriptSegment list \<Rightarrow> jsstring" where
  "copiedText segments = formatTranscript segments False"

section \<open>The model service (services/geminiService.ts)\<close>

subsection \<open>Literals\<close>

definition transcriptionModel :: jsstring where
  "transcriptionModel = asc ''gemini-2.5-flash''"

definition summarizationModel :: jsstring where
  "summarizationModel = asc ''gemini-2.5-flash''"

definition transcription_instruction :: jsstring where
  "transcription_instruction =
    [0x0E42, 0x0E1B, 0x0E23, 0x0E14, 0x0E16, 0x0E2D, 0x0E14, 0x0E40, 0x0E2A, 0x0E35,
     0x0E22, 0x0E07, 0x0E44, 0x0E1F, 0x0E25, 0x0E4C, 0x0E40, 0x0E2A, 0x0E35, 0x0E22,
     0x0E07, 0x0E19, 0x0E35, 0x0E49, 0x0E40, 0x0E1B, 0x0E47, 0x0E19, 0x0E02, 0x0E49,
     0x0E2D, 0x0E04, 0x0E27, 0x0E32, 0x0E21, 0x0E41, 0x0E1A, 0x0E1A, 0x0E40, 0x0E15,
     0x0E47, 0x0E21, 0x0E1E, 0x0E23, 0x0E49, 0x0E2D, 0x0E21, 0x0E23, 0x0E30, 0x0E1A,
     0x0E38, 0x0E0A, 0x0E48, 0x0E27, 0x0E07, 0x0E40, 0x0E27, 0x0E25, 0x0E32, 0x0E40,
     0x0E23, 0x0E34, 0x0E48, 0x0E21, 0x0E15, 0x0E49, 0x0E19, 0x0E41, 0x0E25, 0x0E30,
     0x0E2A, 0x0E34, 0x0E49, 0x0E19, 0x0E2A, 0x0E38, 0x0E14, 0x0E02, 0x0E2D, 0x0E07,
     0x0E41, 0x0E15, 0x0E48, 0x0E25, 0x0E30, 0x0E1B, 0x0E23, 0x0E30, 0x0E42, 0x0E22,
     0x0E04, 0x0E2B, 0x0E23, 0x0E37, 0x0E2D, 0x0E2A, 0x0E48, 0x0E27, 0x0E19, 0x0E02,
     0x0E2D, 0x0E07, 0x0E04, 0x0E33, 0x0E1E, 0x0E39, 0x0E14, 0x0E17, 0x0E35, 0x0E48,
     0x0E2A, 0x0E33, 0x0E04, 0x0E31, 0x0E0D, 0x0020, 0x0E41, 0x0E25, 0x0E30, 0x0E23,
     0x0E30, 0x0E1A, 0x0E38, 0x0E1C, 0x0E39, 0x0E49, 0x0E1E, 0x0E39, 0x0E14, 0x0E16,
     0x0E49, 0x0E32, 0x0E17, 0x0E33, 0x0E44, 0x0E14, 0x0E49, 0x0020, 0x0028, 0x0E40,
     0x0E0A, 0x0E48, 0x0E19, 0x0020, 0x0027, 0x0E1C, 0x0E39, 0x0E49, 0x0E1E, 0x0E39,
     0x0E14, 0x0020, 0x0031, 0x0027, 0x002C, 0x0020, 0x0027, 0x0E1C, 0x0E39, 0x0E49,
     0x0E1E, 0x0E39, 0x0E14, 0x0020, 0x0032, 0x0027, 0x0029, 0x0020, 0x0E08, 0x0E31,
     0x0E14, 0x0E23, 0x0E39, 0x0E1B, 0x0E41, 0x0E1A, 0x0E1A, 0x0E1C, 0x0E25, 0x0E25,
     0x0E31, 0x0E1E, 0x0E18, 0x0E4C, 0x0E40, 0x0E1B, 0x0E47, 0x0E19, 0x0020, 0x004A,
     0x0053, 0x004F, 0x004E, 0x0020, 0x0E15, 0x0E32, 0x0E21, 0x0020, 0x0053, 0x0063,
     0x0068, 0x0065, 0x006D, 0x0061, 0x0020, 0x0E17, 0x0E35, 0x0E48, 0x0E43, 0x0E2B,
     0x0E49, 0x0E21, 0x0E32]"

definition transcription_failed_message :: jsstring where
  "transcription_failed_message =
    [0x0E44, 0x0E21, 0x0E48, 0x0E2A, 0x0E32, 0x0E21, 0x0E32, 0x0E23, 0x0E16, 0x0E16,
     0x0E2D, 0x0E14, 0x0E40, 0x0E2A, 0x0E35, 0x0E22, 0x0E07, 0x0E44, 0x0E14, 0x0E49,
     0x0020, 0x0E2D, 0x0E32, 0x0E08, 0x0E40, 0x0E01, 0x0E34, 0x0E14, 0x0E08, 0x0E32,
     0x0E01, 0x0E44, 0x0E1F, 0x0E25, 0x0E4C, 0x0E40, 0x0E2A, 0x0E35, 0x0E22, 0x0E07,
     0x0E44, 0x0E21, 0x0E48, 0x0E0A, 0x0E31, 0x0E14, 0x0E40, 0x0E08, 0x0E19, 0x0E2B,
     0x0E23, 0x0E37, 0x0E2D, 0x0E21, 0x0E35, 0x0E02, 0x0E49, 0x0E2D, 0x0E1C, 0x0E34,
     0x0E14, 0x0E1E, 0x0E25, 0x0E32, 0x0E14, 0x0E43, 0x0E19, 0x0E01, 0x0E32, 0x0E23,
     0x0E40, 0x0E0A, 0x0E37, 0x0E48, 0x0E2D, 0x0E21, 0x0E15, 0x0E48, 0x0E2D, 0x0020,
     0x0E42, 0x0E1B, 0x0E23, 0x0E14, 0x0E25, 0x0E2D, 0x0E07, 0x0E2D, 0x0E35, 0x0E01,
     0x0E04, 0x0E23, 0x0E31, 0x0E49, 0x0E07]"

definition summary_placeholder :: jsstring where
  "summary_placeholder =
    [0x0E44, 0x0E21, 0x0E48, 0x0E21, 0x0E35, 0x0E02, 0x0E49, 0x0E2D, 0x0E04, 0x0E27,
     0x0E32, 0x0E21, 0x0E43, 0x0E2B, 0x0E49, 0x0E2A, 0x0E23, 0x0E38, 0x0E1B]"

definition summarization_failed_message :: jsstring where
  "summarization_failed_message =
    [0x0E44, 0x0E21, 0x0E48, 0x0E2A, 0x0E32, 0x0E21, 0x0E32, 0x0E23, 0x0E16, 0x0E2A,
     0x0E23, 0x0E49, 0x0E32, 0x0E07, 0x0E2A, 0x0E23, 0x0E38, 0x0E1B, 0x0E44, 0x0E14,
     0x0E49, 0x0020, 0x0E42, 0x0E1B, 0x0E23, 0x0E14, 0x0E25, 0x0E2D, 0x0E07, 0x0E2D,
     0x0E35, 0x0E01, 0x0E04, 0x0E23, 0x0E31, 0x0E49, 0x0E07]"

definition prompt_before :: jsstring where
  "prompt_before =
    [0x000A, 0x0020, 0x0020, 0x0020, 0x0020, 0x0020, 0x0020, 0x0020, 0x0020, 0x0E04,
     0x0E38, 0x0E13, 0x0E04, 0x0E37, 0x0E2D, 0x0E1C, 0x0E39, 0x0E49, 0x0E0A, 0x0E48,
     0x0E27, 0x0E22, 0x0E1B, 0x0E23, 0x0E30, 0x0E0A, 0x0E38, 0x0E21, 0x0E21, 0x0E37,
     0x0E2D, 0x0E2D, 0x0E32, 0x0E0A, 0x0E35, 0x0E1E, 0x0020, 0x0E2B, 0x0E19, 0x0E49,
     0x0E32, 0x0E17, 0x0E35, 0x0E48, 0x0E02, 0x0E2D, 0x0E07, 0x0E04, 0x0E38, 0x0E13,
     0x0E04, 0x0E37, 0x0E2D, 0x0E01, 0x0E32, 0x0E23, 0x0E2A, 0x0E23, 0x0E38, 0x0E1B,
     0x0E02, 0x0E49, 0x0E2D, 0x0E04, 0x0E27, 0x0E32, 0x0E21, 0x0E17, 0x0E35, 0x0E48,
     0x0E16, 0x0E2D, 0x0E14, 0x0E40, 0x0E2A, 0x0E35, 0x0E22, 0x0E07, 0x0E08, 0x0E32,
     0x0E01, 0x0E01, 0x0E32, 0x0E23, 0x0E1B, 0x0E23, 0x0E30, 0x0E0A, 0x0E38, 0x0E21,
     0x000A, 0x0020, 0x0020, 0x0020, 0x0020, 0x0020, 0x0020, 0x0020, 0x0020, 0x0E42,
     0x0E1B, 0x0E23, 0x0E14, 0x0E2D, 0x0E48, 0x0E32, 0x0E19, 0x0E02, 0x0E49, 0x0E2D,
     0x0E04, 0x0E27, 0x0E32, 0x0E21, 0x0E15, 0x0E48, 0x0E2D, 0x0E44, 0x0E1B, 0x0E19,
     0x0E35, 0x0E49, 0x0E41, 0x0E25, 0x0E30, 0x0E2A, 0x0E23, 0x0E38, 0x0E1B, 0x0E40,
     0x0E1B, 0x0E47, 0x0E19, 0x0E1B, 0x0E23, 0x0E30, 0x0E40, 0x0E14, 0x0E47, 0x0E19,
     0x0E2A, 0x0E33, 0x0E04, 0x0E31, 0x0E0D, 0x0020, 0x0028, 0x006B, 0x0065, 0x0079,
     0x0020, 0x0074, 0x0061, 0x006B, 0x0065, 0x0061, 0x0077, 0x0061, 0x0079, 0x0073,
     0x0029, 0x0020, 0x0E43, 0x0E19, 0x0E23, 0x0E39, 0x0E1B, 0x0E41, 0x0E1A, 0x0E1A,
     0x0020, 0x0062, 0x0075, 0x006C, 0x006C, 0x0065, 0x0074, 0x0020, 0x0070, 0x006F,
     0x0069, 0x006E, 0x0074, 0x0073, 0x0020, 0x0E17, 0x0E35, 0x0E48, 0x0E0A, 0x0E31,
     0x0E14, 0x0E40, 0x0E08, 0x0E19, 0x0E41, 0x0E25, 0x0E30, 0x0E01, 0x0E23, 0x0E30,
     0x0E0A, 0x0E31, 0x0E1A, 0x0E40, 0x0E1B, 0x0E47, 0x0E19, 0x0E20, 0x0E32, 0x0E29,
     0x0E32, 0x0E44, 0x0E17, 0x0E22, 0x000A, 0x000A, 0x0020, 0x0020, 0x0020, 0x0020,
     0x0020, 0x0020, 0x0020, 0x0020, 0x0E02, 0x0E49, 0x0E2D, 0x0E04, 0x0E27, 0x0E32,
     0x0E21, 0x0E17, 0x0E35, 0x0E48, 0x0E08, 0x0E30, 0x0E2A, 0x0E23, 0x0E38, 0x0E1B,
     0x003A, 0x000A, 0x0020, 0x0020, 0x0020, 0x0020, 0x0020, 0x0020, 0x0020, 0x0020,
     0x002D, 0x002D, 0x002D, 0x000A, 0x0020, 0x0020, 0x0020, 0x0020, 0x0020, 0x0020,
     0x0020, 0x0020]"

definition prompt_after :: jsstring where
  "prompt_after =
    [0x000A, 0x0020, 0x0020, 0x0020, 0x0020, 0x0020, 0x0020, 0x0020, 0x0020, 0x002D,
     0x002D, 0x002D, 0x000A, 0x000A, 0x0020, 0x0020, 0x0020, 0x0020, 0x0020, 0x0020,
     0x0020, 0x0020, 0x0E01, 0x0E23, 0x0E38, 0x0E13, 0x0E32, 0x0E2A, 0x0E23, 0x0E49,
     0x0E32, 0x0E07, 0x0E2A, 0x0E23, 0x0E38, 0x0E1B, 0x0E01, 0x0E32, 0x0E23, 0x0E1B,
     0x0E23, 0x0E30, 0x0E0A, 0x0E38, 0x0E21, 0x003A, 0x000A, 0x0020, 0x0020, 0x0020,
     0x0020, 0x0020, 0x0020, 0x0020, 0x0020]"

subsection \<open>The response schema\<close>

datatype schema =
    SString
  | SArray schema
  | SObject "(jsstring \<times> schema) list" "jsstring list"

definition transcriptSchema :: schema where
  "transcriptSchema =
     SArray (SObject
       [(asc ''speaker'', SString), (asc ''text'', SString),
        (asc ''startTime'', SString), (asc ''endTime'', SString)]
       [asc ''text'', asc ''startTime'', asc ''endTime''])"

text \<open>
  A parsed JSON value, and what it means for one to conform to a schema: the type
  matches, every item of an array conforms, every required property of an object is
  there and every declared property that is there conforms.
\<close>

datatype json =
    JNull
  | JBool bool
  | JNumber rat
  | JString jsstring
  | JArray "json list"
  | JObject "(jsstring \<times> json) list"

fun conforms :: "schema \<Rightarrow> json \<Rightarrow> bool" where
  "conforms SString v = (case v of JString _ \<Rightarrow> True | _ \<Rightarrow> False)"
| "conforms (SArray items) v =
     (case v of JArray xs \<Rightarrow> list_all (conforms items) xs | _ \<Rightarrow> False)"
| "conforms (SObject props req) v =
     (case v of
        JObject kvs \<Rightarrow>
          list_all (\<lambda>k. map_of kvs k \<noteq> None) req \<and>
          list_all (\<lambda>(k, s). case map_of kvs k of
                                None \<Rightarrow> True
                              | Some x \<Rightarrow> conforms s x) props
      | _ \<Rightarrow> False)"

subsection \<open>Requests and the platform\<close>

text \<open>
  The two requests the service sends with \<open>ai.models.generateContent\<close>: the
  transcription request carries the model, the instruction, the MIME type and the
  base64 data of the audio (\<open>undefined\<close> when the data URL had no comma), the
  response MIME type and the response schema; the summarization request the model, the
  prompt and the temperature.
\<close>

datatype request =
    TranscriptionRequest jsstring jsstring jsstring "jsstring option" jsstring schema
  | SummarizationRequest jsstring jsstring rat

fun isSummarizationRequest :: "request \<Rightarrow> bool" where
  "isSummarizationRequest (SummarizationRequest m p t) = True"
| "isSummarizationRequest (TranscriptionRequest m i ty d rt s) = False"

text \<open>
  The service casts what \<open>JSON.parse\<close> returned to \<open>TranscriptSegment[]\<close> without
  a check, so the code behind the cast meets either a transcript, when the value has
  the declared type, or any other JSON value. On a transcript the expressions of the
  code mean what the types say. On any other value they are evaluated by the JavaScript
  engine as it finds the value, and may throw a \<open>TypeError\<close> (\<open>[null]\<close> has a
  length, and reading \<open>text\<close> of its element throws).
\<close>

datatype parsed = Transcript "TranscriptSegment list" | Untyped json

text \<open>
  What the code calls and does not define: \<open>FileReader.readAsDataURL\<close> (the data
  URL, or the error event), \<open>generateContent\<close> (the text of the response, or the
  rejection), \<open>JSON.parse\<close> (the parsed value, or the syntax error), and the engine's
  evaluation, on a value outside the declared type, of the four expressions that use
  the parsed value:
  \<^item> \<open>transcriptResult && transcriptResult.length > 0\<close> (App.tsx, line 44),
  \<^item> \<open>!transcript || transcript.length === 0\<close> (geminiService.ts, line 85),
  \<^item> \<open>transcript.map(segment => segment.text).join('\n')\<close> (geminiService.ts,
    line 89),
  \<^item> \<open>transcript.length > 0\<close> (App.tsx, line 128).

  The parsed value has the type \<open>'a\<close>: the service is read at \<open>json\<close> where the
  value itself matters and at \<open>parsed\<close> where the controller uses it.
\<close>

record 'a platform =
  readAsDataURL :: "Blob \<Rightarrow> thrown + jsstring"
  generateContent :: "request \<Rightarrow> thrown + jsstring"
  JSON_parse :: "jsstring \<Rightarrow> thrown + 'a"
  nonEmptyUntyped :: "json \<Rightarrow> thrown + bool"
  emptyUntyped :: "json \<Rightarrow> bool"
  textsUntyped :: "json \<Rightarrow> thrown + jsstring"
  lengthPositiveUntyped :: "json \<Rightarrow> thrown + bool"

definition blobToBase64 :: "('a, 'b) platform_scheme \<Rightarrow> Blob \<Rightarrow> thrown + jsstring option" where
  "blobToBase64 p blob =
     (case readAsDataURL p blob of
        Inl e \<Rightarrow> Inl e
      | Inr result \<Rightarrow> Inr (js_index (js_split 0x002C result) 1))"

text \<open>
  Both operations return the requests they issued, in order, with their outcome:
  \<open>Inl\<close> what they throw, \<open>Inr\<close> what they return.
\<close>

definition transcribeAudio ::
  "('a, 'b) platform_scheme \<Rightarrow> Blob \<Rightarrow> request list \<times> (thrown + 'a)" where
  "transcribeAudio p audioBlob =
     (case blobToBase64 p audioBlob of
        Inl e \<Rightarrow> ([], Inl (Error transcription_failed_message))
      | Inr base64Audio \<Rightarrow>
          (let req = TranscriptionRequest transcriptionModel transcription_instruction
                       (blobType audioBlob) base64Audio (asc ''application/json'')
                       transcriptSchema
           in case generateContent p req of
                Inl e \<Rightarrow> ([req], Inl (Error transcription_failed_message))
              | Inr response_text \<Rightarrow>
                  (case JSON_parse p response_text of
                     Inl e \<Rightarrow> ([req], Inl (Error transcription_failed_message))
                   | Inr jsonResponse \<Rightarrow> ([req], Inr jsonResponse))))"

text \<open>
  \<open>summarizeText\<close>: the guard of line 85, the document of line 89, which stands
  before the \<open>try\<close> so that what it throws leaves the function as it is, and the
  request inside the \<open>try\<close>, whose failure is replaced by the one error.
\<close>

definition transcriptEmpty :: "('a, 'b) platform_scheme \<Rightarrow> parsed \<Rightarrow> bool" where
  "transcriptEmpty p transcript =
     (case transcript of
        Transcript segments \<Rightarrow> length segments = 0
      | Untyped v \<Rightarrow> emptyUntyped p v)"

definition textToSummarize :: "('a, 'b) platform_scheme \<Rightarrow> parsed \<Rightarrow> thrown + jsstring" where
  "textToSummarize p transcript =
     (case transcript of
        Transcript segments \<Rightarrow>
          Inr (js_join newline (map (\<lambda>segment. segtext segment) segments))
      | Untyped v \<Rightarrow> textsUntyped p v)"

definition summarizeText ::
  "('a, 'b) platform_scheme \<Rightarrow> parsed \<Rightarrow> request list \<times> (thrown + jsstring)" where
  "summarizeText p transcript =
     (if transcriptEmpty p transcript then ([], Inr summary_placeholder)
      else
        (case textToSummarize p transcript of
           Inl err \<Rightarrow> ([], Inl err)
         | Inr texts \<Rightarrow>
             (let prompt = prompt_before @ texts @ prompt_after;
                  req = SummarizationRequest summarizationModel prompt (3 / 10)
              in case generateContent p req of
                   Inl e \<Rightarrow> ([req], Inl (Error summarization_failed_message))
                 | Inr response_text \<Rightarrow> ([req], Inr response_text))))"

section \<open>The controller (App.tsx)\<close>

definition pipeline_placeholder :: jsstring where
  "pipeline_placeholder =
    [0x0E44, 0x0E21, 0x0E48, 0x0E2A, 0x0E32, 0x0E21, 0x0E32, 0x0E23, 0x0E16, 0x0E2A,
     0x0E23, 0x0E49, 0x0E32, 0x0E07, 0x0E2A, 0x0E23, 0x0E38, 0x0E1B, 0x0E44, 0x0E14,
     0x0E49, 0x0E40, 0x0E19, 0x0E37, 0x0E48, 0x0E2D, 0x0E07, 0x0E08, 0x0E32, 0x0E01,
     0x0E44, 0x0E21, 0x0E48, 0x0E21, 0x0E35, 0x0E02, 0x0E49, 0x0E2D, 0x0E04, 0x0E27,
     0x0E32, 0x0E21, 0x0E17, 0x0E35, 0x0E48, 0x0E16, 0x0E2D, 0x0E14, 0x0E40, 0x0E2A,
     0x0E35, 0x0E22, 0x0E07]"

definition unknown_error_message :: jsstring where
  "unknown_error_message =
    [0x0E40, 0x0E01, 0x0E34, 0x0E14, 0x0E02, 0x0E49, 0x0E2D, 0x0E1C, 0x0E34, 0x0E14,
     0x0E1E, 0x0E25, 0x0E32, 0x0E14, 0x0E17, 0x0E35, 0x0E48, 0x0E44, 0x0E21, 0x0E48,
     0x0E23, 0x0E39, 0x0E49, 0x0E08, 0x0E31, 0x0E01]"

definition error_prefix :: jsstring where
  "error_prefix =
    [0x0E40, 0x0E01, 0x0E34, 0x0E14, 0x0E02, 0x0E49, 0x0E2D, 0x0E1C, 0x0E34, 0x0E14,
     0x0E1E, 0x0E25, 0x0E32, 0x0E14, 0x0E23, 0x0E30, 0x0E2B, 0x0E27, 0x0E48, 0x0E32,
     0x0E07, 0x0E01, 0x0E32, 0x0E23, 0x0E1B, 0x0E23, 0x0E30, 0x0E21, 0x0E27, 0x0E25,
     0x0E1C, 0x0E25, 0x003A, 0x0020]"

record AppState =
  status :: Status
  transcript :: parsed
  summary :: jsstring
  error :: jsstring
  copiedTranscript :: bool
  copiedSummary :: bool

definition initialApp :: AppState where
  "initialApp = \<lparr>status = IDLE, transcript = Transcript [], summary = [], error = [],
                  copiedTranscript = False, copiedSummary = False\<rparr>"

definition resetState :: "AppState \<Rightarrow> AppState" where
  "resetState a = a\<lparr>transcript := Transcript [], summary := [], error := [],
                     copiedTranscript := False, copiedSummary := False, status := IDLE\<rparr>"

text \<open>The \<open>catch\<close> block of \<open>handleProcessAudio\<close>.\<close>

definition processingFailed :: "thrown \<Rightarrow> AppState \<Rightarrow> AppState" where
  "processingFailed err a =
     (let errorMessage = (case err of Error message \<Rightarrow> message | NonError \<Rightarrow> unknown_error_message)
      in a\<lparr>error := error_prefix @ errorMessage, status := IDLE\<rparr>)"

text \<open>The guard of line 44; on a value outside the declared type it may throw.\<close>

definition transcriptNonEmpty :: "('a, 'b) platform_scheme \<Rightarrow> parsed \<Rightarrow> thrown + bool" where
  "transcriptNonEmpty p transcriptResult =
     (case transcriptResult of
        Transcript segments \<Rightarrow> Inr (length segments > 0)
      | Untyped v \<Rightarrow> nonEmptyUntyped p v)"

text \<open>
  \<open>handleProcessAudio\<close>. Everything after the reset is inside the \<open>try\<close>: what
  \<open>transcribeAudio\<close>, the guard or \<open>summarizeText\<close> throws ends in the \<open>catch\<close>
  block, with the transcript already stored when the throw comes after line 42.
\<close>

definition handleProcessAudio ::
  "(parsed, 'b) platform_scheme \<Rightarrow> Blob \<Rightarrow> AppState \<Rightarrow> request list \<times> AppState" where
  "handleProcessAudio p blob a0 =
     (let a1 = (resetState a0)\<lparr>status := PROCESSING\<rparr>
      in case transcribeAudio p blob of
           (calls1, Inl err) \<Rightarrow> (calls1, processingFailed err a1)
         | (calls1, Inr transcriptResult) \<Rightarrow>
             (let a2 = a1\<lparr>transcript := transcriptResult\<rparr>
              in case transcriptNonEmpty p transcriptResult of
                   Inl err \<Rightarrow> (calls1, processingFailed err a2)
                 | Inr nonEmpty \<Rightarrow>
                     if nonEmpty
                     then (case summarizeText p transcriptResult of
                             (calls2, Inl err) \<Rightarrow> (calls1 @ calls2, processingFailed err a2)
                           | (calls2, Inr summaryResult) \<Rightarrow>
                               (calls1 @ calls2,
                                a2\<lparr>summary := summaryResult, status := DONE\<rparr>))
                     else (calls1, a2\<lparr>summary := pipeline_placeholder, status := DONE\<rparr>)))"

text \<open>
  What the page renders: the loader, the error banner, the two result cards. The test
  for the cards is \<open>status === Status.DONE && transcript.length > 0\<close>, whose second
  operand is evaluated in \<open>DONE\<close> only.
\<close>

definition loaderShown :: "AppState \<Rightarrow> bool" where
  "loaderShown a = (status a = PROCESSING)"

definition errorShown :: "AppState \<Rightarrow> bool" where
  "errorShown a = (error a \<noteq> [])"

definition resultsShown :: "('a, 'b) platform_scheme \<Rightarrow> AppState \<Rightarrow> thrown + bool" where
  "resultsShown p a =
     (if status a = DONE
      then (case transcript a of
              Transcript segments \<Rightarrow> Inr (length segments > 0)
            | Untyped v \<Rightarrow> lengthPositiveUntyped p v)
      else Inr False)"

text \<open>
  The controller's state changes one setter call at a time; each rule below is one
  call of a state setter in \<open>App.tsx\<close>, with whatever argument it may be given:
  \<open>resetState\<close> and the setters of \<open>handleProcessAudio\<close> (with its \<open>catch\<close>
  block), and the two copy flags of \<open>copyToClipboard\<close>. Any interleaving of runs is a
  sequence of these steps.
\<close>

inductive app_step :: "AppState \<Rightarrow> AppState \<Rightarrow> bool" where
  call_resetState: "app_step a (resetState a)"
| call_setStatus_PROCESSING: "app_step a (a\<lparr>status := PROCESSING\<rparr>)"
| call_setTranscript: "app_step a (a\<lparr>transcript := t\<rparr>)"
| call_setSummary: "app_step a (a\<lparr>summary := s\<rparr>)"
| call_setStatus_DONE: "app_step a (a\<lparr>status := DONE\<rparr>)"
| call_catch: "app_step a (processingFailed err a)"
| call_setCopiedTranscript: "app_step a (a\<lparr>copiedTranscript := b\<rparr>)"
| call_setCopiedSummary: "app_step a (a\<lparr>copiedSummary := b\<rparr>)"

section \<open>Audio capture (hooks/useAudioRecorder.ts)\<close>

definition microphone_alert :: jsstring where
  "microphone_alert =
    [0x0E44, 0x0E21, 0x0E48, 0x0E2A, 0x0E32, 0x0E21, 0x0E32, 0x0E23, 0x0E16, 0x0E40,
     0x0E02, 0x0E49, 0x0E32, 0x0E16, 0x0E36, 0x0E07, 0x0E44, 0x0E21, 0x0E42, 0x0E04,
     0x0E23, 0x0E42, 0x0E1F, 0x0E19, 0x0E44, 0x0E14, 0x0E49, 0x0020, 0x0E42, 0x0E1B,
     0x0E23, 0x0E14, 0x0E15, 0x0E23, 0x0E27, 0x0E08, 0x0E2A, 0x0E2D, 0x0E1A, 0x0E01,
     0x0E32, 0x0E23, 0x0E2D, 0x0E19, 0x0E38, 0x0E0D, 0x0E32, 0x0E15, 0x0E43, 0x0E19,
     0x0E40, 0x0E1A, 0x0E23, 0x0E32, 0x0E27, 0x0E4C, 0x0E40, 0x0E0B, 0x0E2D, 0x0E23,
     0x0E4C, 0x0E02, 0x0E2D, 0x0E07, 0x0E04, 0x0E38, 0x0E13]"

definition webm :: jsstring where
  "webm = asc ''audio/webm''"

text \<open>
  The hook's two state variables and two refs, with what it does to the world: the
  alerts raised and the capture streams that are open. A stream, and the recorder built
  on it, is named by a number.
\<close>

record RecorderState =
  isRecording :: bool
  audioBlob :: "Blob option"
  mediaRecorderRef :: "nat option"
  audioChunksRef :: "Blob list"
  alerts :: "jsstring list"
  openStreams :: "nat list"

definition initialRecorder :: RecorderState where
  "initialRecorder = \<lparr>isRecording = False, audioBlob = None, mediaRecorderRef = None,
                       audioChunksRef = [], alerts = [], openStreams = []\<rparr>"

text \<open>
  What the platform does in a call of \<open>startRecording\<close>: \<open>getUserMedia\<close> either
  rejects or opens a stream, and on an open stream either \<open>new MediaRecorder\<close> throws
  (the type \<open>audio/webm\<close> is not supported), or the recorder's \<open>start\<close> throws, or
  the recorder starts. Everything thrown inside the \<open>try\<close> block ends in the same
  \<open>catch\<close>, which raises the microphone alert.
\<close>

datatype media_access = Denied thrown | Granted nat

datatype recorder_setup = ConstructorThrew | StartThrew | Started

definition startRecording ::
  "media_access \<Rightarrow> recorder_setup \<Rightarrow> RecorderState \<Rightarrow> RecorderState" where
  "startRecording access outcome r =
     (case access of
        Denied err \<Rightarrow> r\<lparr>alerts := alerts r @ [microphone_alert]\<rparr>
      | Granted stream \<Rightarrow>
          (let r1 = r\<lparr>openStreams := openStreams r @ [stream],
                       isRecording := True, audioBlob := None, audioChunksRef := []\<rparr>
           in case outcome of
                ConstructorThrew \<Rightarrow> r1\<lparr>alerts := alerts r1 @ [microphone_alert]\<rparr>
              | StartThrew \<Rightarrow> r1\<lparr>mediaRecorderRef := Some stream,
                                   alerts := alerts r1 @ [microphone_alert]\<rparr>
              | Started \<Rightarrow> r1\<lparr>mediaRecorderRef := Some stream\<rparr>))"

definition stopRecording :: "RecorderState \<Rightarrow> RecorderState" where
  "stopRecording r =
     (case mediaRecorderRef r of
        None \<Rightarrow> r
      | Some recorder \<Rightarrow> r\<lparr>isRecording := False\<rparr>)"

text \<open>The two listeners; \<open>event.data\<close> may be \<open>undefined\<close>.\<close>

definition on_dataavailable :: "Blob option \<Rightarrow> RecorderState \<Rightarrow> RecorderState" where
  "on_dataavailable data r =
     (case data of
        None \<Rightarrow> r
      | Some chunk \<Rightarrow>
          if blobSize chunk = 0 then r
          else r\<lparr>audioChunksRef := audioChunksRef r @ [chunk]\<rparr>)"

definition on_stop :: "nat \<Rightarrow> RecorderState \<Rightarrow> RecorderState" where
  "on_stop stream r =
     r\<lparr>audioBlob := Some (newBlob (audioChunksRef r) webm),
       openStreams := removeAll stream (openStreams r)\<rparr>"

text \<open>A run of \<open>dataavailable\<close> events, in arrival order.\<close>

fun deliver :: "Blob option list \<Rightarrow> RecorderState \<Rightarrow> RecorderState" where
  "deliver [] r = r"
| "deliver (d # ds) r = deliver ds (on_dataavailable d r)"

text \<open>The chunks of such a run that are defined and not empty.\<close>

fun nonEmptyChunks :: "Blob option list \<Rightarrow> Blob list" where
  "nonEmptyChunks [] = []"
| "nonEmptyChunks (None # ds) = nonEmptyChunks ds"
| "nonEmptyChunks (Some c # ds) =
     (if blobSize c = 0 then nonEmptyChunks ds else c # nonEmptyChunks ds)"

inductive recorder_step :: "RecorderState \<Rightarrow> RecorderState \<Rightarrow> bool" where
  call_startRecording: "recorder_step r (startRecording access outcome r)"
| call_stopRecording: "recorder_step r (stopRecording r)"
| event_dataavailable: "recorder_step r (on_dataavailable d r)"
| event_stop: "recorder_step r (on_stop stream r)"

section \<open>The page: controller and recorder side by side\<close>

inductive page_step :: "AppState \<times> RecorderState \<Rightarrow> AppState \<times> RecorderState \<Rightarrow> bool" where
  controller_step: "app_step a a' \<Longrightarrow> page_step (a, r) (a', r)"
| capture_step: "recorder_step r r' \<Longrightarrow> page_step (a, r) (a, r')"

definition reachable :: "AppState \<times> RecorderState \<Rightarrow> bool" where
  "reachable s = page_step\<^sup>*\<^sup>* (initialApp, initialRecorder) s"

section \<open>Sample inputs\<close>

text \<open>
  Concrete inputs at which the properties below are evaluated: a four-byte recording,
  the segment of Scenario A and the two speakers of Scenario D, and platforms that read
  the recording to a data URL, answer the transcription and the summarization request
  with given outcomes and parse a few response texts the way \<open>JSON.parse\<close> does.
  One sample response, \<open>[null]\<close>, is outside the declared type; the engine fields of
  the sample platforms give the answers of a JavaScript engine at that value (it is
  truthy with length 1, and reading \<open>text\<close> of its element throws a
  \<open>TypeError\<close>, here with the message of V8) and a default elsewhere.
\<close>

definition sampleBlob :: Blob where
  "sampleBlob = \<lparr>blobBytes = [0x1A, 0x45, 0xDF, 0xA3], blobType = webm\<rparr>"

definition scenario_text :: jsstring where
  "scenario_text =
    [0x0E2A, 0x0E27, 0x0E31, 0x0E2A, 0x0E14, 0x0E35]"

definition speaker_1 :: jsstring where
  "speaker_1 =
    [0x0E1C, 0x0E39, 0x0E49, 0x0E1E, 0x0E39, 0x0E14, 0x0020, 0x0031]"

definition speaker_2 :: jsstring where
  "speaker_2 =
    [0x0E1C, 0x0E39, 0x0E49, 0x0E1E, 0x0E39, 0x0E14, 0x0020, 0x0032]"

definition scenarioA :: TranscriptSegment where
  "scenarioA = \<lparr>speaker = None, segtext = scenario_text,
                 startTime = asc ''00:00:00'', endTime = asc ''00:00:02''\<rparr>"

definition scenarioD1 :: TranscriptSegment where
  "scenarioD1 = \<lparr>speaker = Some speaker_1, segtext = asc ''A'',
                  startTime = asc ''00:00:00'', endTime = asc ''00:00:02''\<rparr>"

definition scenarioD2 :: TranscriptSegment where
  "scenarioD2 = \<lparr>speaker = Some speaker_2, segtext = asc ''B'',
                  startTime = asc ''00:00:02'', endTime = asc ''00:00:05''\<rparr>"

definition scenarioA_response :: jsstring where
  "scenarioA_response =
    [0x005B, 0x007B, 0x0022, 0x0074, 0x0065, 0x0078, 0x0074, 0x0022, 0x003A, 0x0022,
     0x0E2A, 0x0E27, 0x0E31, 0x0E2A, 0x0E14, 0x0E35, 0x0022, 0x002C, 0x0022, 0x0073,
     0x0074, 0x0061, 0x0072, 0x0074, 0x0054, 0x0069, 0x006D, 0x0065, 0x0022, 0x003A,
     0x0022, 0x0030, 0x0030, 0x003A, 0x0030, 0x0030, 0x003A, 0x0030, 0x0030, 0x0022,
     0x002C, 0x0022, 0x0065, 0x006E, 0x0064, 0x0054, 0x0069, 0x006D, 0x0065, 0x0022,
     0x003A, 0x0022, 0x0030, 0x0030, 0x003A, 0x0030, 0x0030, 0x003A, 0x0030, 0x0032,
     0x0022, 0x007D, 0x005D]"

definition syntaxError :: thrown where
  "syntaxError = Error (asc ''Unexpected end of JSON input'')"

definition null_read_message :: jsstring where
  "null_read_message =
    [0x0043, 0x0061, 0x006E, 0x006E, 0x006F, 0x0074, 0x0020, 0x0072, 0x0065, 0x0061,
     0x0064, 0x0020, 0x0070, 0x0072, 0x006F, 0x0070, 0x0065, 0x0072, 0x0074, 0x0069,
     0x0065, 0x0073, 0x0020, 0x006F, 0x0066, 0x0020, 0x006E, 0x0075, 0x006C, 0x006C,
     0x0020, 0x0028, 0x0072, 0x0065, 0x0061, 0x0064, 0x0069, 0x006E, 0x0067, 0x0020,
     0x0027, 0x0074, 0x0065, 0x0078, 0x0074, 0x0027, 0x0029]"

definition nullTextRead :: thrown where
  "nullTextRead = Error null_read_message"

definition parseSegments :: "jsstring \<Rightarrow> thrown + parsed" where
  "parseSegments t =
     (if t = asc ''[]'' then Inr (Transcript [])
      else if t = scenarioA_response then Inr (Transcript [scenarioA])
      else if t = asc ''[null]'' then Inr (Untyped (JArray [JNull]))
      else Inl syntaxError)"

definition parseJson :: "jsstring \<Rightarrow> thrown + json" where
  "parseJson t =
     (if t = asc ''[]'' then Inr (JArray [])
      else if t = asc ''{}'' then Inr (JObject [])
      else Inl syntaxError)"

definition servedBy ::
  "(thrown + jsstring) \<Rightarrow> (thrown + jsstring) \<Rightarrow> (jsstring \<Rightarrow> thrown + 'a) \<Rightarrow> 'a platform" where
  "servedBy transcription summarization parse =
     \<lparr>readAsDataURL = (\<lambda>b. Inr (asc ''data:audio/webm;base64,GkXfow=='')),
      generateContent = (\<lambda>r. if isSummarizationRequest r then summarization else transcription),
      JSON_parse = parse,
      nonEmptyUntyped = (\<lambda>v. Inr (v = JArray [JNull])),
      emptyUntyped = (\<lambda>v. v \<noteq> JArray [JNull]),
      textsUntyped = (\<lambda>v. Inl nullTextRead),
      lengthPositiveUntyped = (\<lambda>v. Inr (v = JArray [JNull]))\<rparr>"

definition chunkA :: Blob where
  "chunkA = \<lparr>blobBytes = [0x01, 0x02], blobType = webm\<rparr>"

definition chunkB :: Blob where
  "chunkB = \<lparr>blobBytes = [0x03], blobType = webm\<rparr>"

definition chunkC :: Blob where
  "chunkC = \<lparr>blobBytes = [0x04, 0x05], blobType = webm\<rparr>"

definition emptyChunk :: Blob where
  "emptyChunk = \<lparr>blobBytes = [], blobType = webm\<rparr>"

section \<open>Formatting\<close>

lemma segment_line_eq:
  "(let speakerLabel = (if truthy (speaker seg) then the (speaker seg) @ asc '': '' else [])
    in asc ''['' @ startTime seg @ asc '' - '' @ endTime seg @ asc ''] '' @ speakerLabel @ segtext seg)
   = segmentLine seg"
  by (cases "speaker seg"; simp add: segmentLine_def truthy_def split: list.splits)

text \<open>
  C7. Each segment gives the line \<open>[startTime - endTime] speaker: text\<close> when a
  speaker is present and \<open>[startTime - endTime] text\<close> otherwise (\<open>segmentLine\<close>, a
  function of the segment's fields alone); the exported text is these lines joined by one
  newline, the copied text the same lines joined by two, and the segment of Scenario A
  gives \<open>[00:00:00 - 00:00:02]\<close>, a space and its text.
\<close>

theorem formatTranscript_lines:
  "exportedText segs = js_join newline (map segmentLine segs)
   \<and> copiedText segs = js_join (newline @ newline) (map segmentLine segs)
   \<and> segmentLine scenarioA = asc ''[00:00:00 - 00:00:02] '' @ scenario_text"
proof -
  have lines: "map (\<lambda>segment. let speakerLabel = (if truthy (speaker segment) then the (speaker segment) @ asc '': '' else [])
    in asc ''['' @ startTime segment @ asc '' - '' @ endTime segment @ asc ''] '' @ speakerLabel @ segtext segment) segs
     = map segmentLine segs"
    using segment_line_eq by simp
  have a: "exportedText segs = js_join newline (map segmentLine segs)"
    unfolding exportedText_def formatTranscript_def lines by simp
  have b: "copiedText segs = js_join (newline @ newline) (map segmentLine segs)"
    unfolding copiedText_def formatTranscript_def lines by simp
  have c: "segmentLine scenarioA = asc ''[00:00:00 - 00:00:02] '' @ scenario_text"
    by (simp add: segmentLine_def scenarioA_def asc_def)
  from a b c show ?thesis by simp
qed

text \<open>Scenario D: two segments with speakers, exported and copied.\<close>

theorem formatTranscript_lines_witness:
  "exportedText [scenarioD1, scenarioD2] =
     asc ''[00:00:00 - 00:00:02] '' @ speaker_1 @ asc '': A'' @ newline @
     asc ''[00:00:02 - 00:00:05] '' @ speaker_2 @ asc '': B''
   \<and> copiedText [scenarioD1, scenarioD2] =
     asc ''[00:00:00 - 00:00:02] '' @ speaker_1 @ asc '': A'' @ newline @ newline @
     asc ''[00:00:02 - 00:00:05] '' @ speaker_2 @ asc '': B''"
  using formatTranscript_lines [of "[scenarioD1, scenarioD2]"]
  by (simp add: segmentLine_def scenarioD1_def scenarioD2_def speaker_1_def speaker_2_def asc_def)

section \<open>Runs of the controller\<close>

subsection \<open>The outcomes of a run\<close>

lemma transcribeAudio_calls:
  "filter isSummarizationRequest (fst (transcribeAudio p blob)) = []"
  by (simp add: transcribeAudio_def Let_def split: sum.splits)

lemma transcribeAudio_error:
  "snd (transcribeAudio p blob) = Inl e \<Longrightarrow> e = Error transcription_failed_message"
  by (auto simp: transcribeAudio_def Let_def split: sum.splits)

lemma summarizeText_request_failed:
  "summarizeText p v = ([req], Inl e) \<Longrightarrow> e = Error summarization_failed_message"
  by (auto simp: summarizeText_def Let_def split: sum.splits if_splits)

lemma summarizeText_transcript:
  "tr \<noteq> [] \<Longrightarrow>
   summarizeText p (Transcript tr) =
     ([SummarizationRequest summarizationModel
         (prompt_before @ js_join newline (map segtext tr) @ prompt_after) (3 / 10)],
      case generateContent p (SummarizationRequest summarizationModel
             (prompt_before @ js_join newline (map segtext tr) @ prompt_after) (3 / 10)) of
        Inl e \<Rightarrow> Inl (Error summarization_failed_message)
      | Inr response_text \<Rightarrow> Inr response_text)"
  by (simp add: summarizeText_def transcriptEmpty_def textToSummarize_def Let_def
        split: sum.splits)

lemma error_prefix_nonempty: "error_prefix \<noteq> []"
  by (simp add: error_prefix_def)

lemma run_transcription_failed:
  assumes "snd (transcribeAudio p blob) = Inl e"
  shows "handleProcessAudio p blob a0 =
           (fst (transcribeAudio p blob),
            (resetState a0)\<lparr>error := error_prefix @ transcription_failed_message\<rparr>)"
proof -
  obtain calls where t: "transcribeAudio p blob = (calls, Inl e)"
    using assms by (cases "transcribeAudio p blob") simp
  have e: "e = Error transcription_failed_message"
    using assms by (rule transcribeAudio_error)
  show ?thesis
    by (simp add: handleProcessAudio_def t e processingFailed_def resetState_def)
qed

lemma run_summarization_failed:
  assumes "snd (transcribeAudio p blob) = Inr v" and "transcriptNonEmpty p v = Inr True"
    and "summarizeText p v = ([req], Inl e)"
  shows "handleProcessAudio p blob a0 =
           (fst (transcribeAudio p blob) @ [req],
            (resetState a0)\<lparr>transcript := v,
                              error := error_prefix @ summarization_failed_message\<rparr>)"
proof -
  obtain calls1 where t: "transcribeAudio p blob = (calls1, Inr v)"
    using assms(1) by (cases "transcribeAudio p blob") simp
  have e: "e = Error summarization_failed_message"
    using assms(3) by (rule summarizeText_request_failed)
  show ?thesis
    by (simp add: handleProcessAudio_def t assms(2) assms(3) e processingFailed_def
          resetState_def)
qed

text \<open>
  The two throws that come from a value outside the declared type: the guard of the
  controller, and line 89 of \<open>summarizeText\<close>, before any request. What was thrown
  reaches the \<open>catch\<close> block as it is.
\<close>

lemma run_guard_threw:
  assumes "snd (transcribeAudio p blob) = Inr v" and "transcriptNonEmpty p v = Inl err"
  shows "handleProcessAudio p blob a0 =
           (fst (transcribeAudio p blob),
            processingFailed err ((resetState a0)\<lparr>status := PROCESSING, transcript := v\<rparr>))"
proof -
  obtain calls1 where t: "transcribeAudio p blob = (calls1, Inr v)"
    using assms(1) by (cases "transcribeAudio p blob") simp
  show ?thesis
    by (simp add: handleProcessAudio_def t assms(2))
qed

lemma run_threw_before_request:
  assumes "snd (transcribeAudio p blob) = Inr v" and "transcriptNonEmpty p v = Inr True"
    and "summarizeText p v = ([], Inl err)"
  shows "handleProcessAudio p blob a0 =
           (fst (transcribeAudio p blob),
            processingFailed err ((resetState a0)\<lparr>status := PROCESSING, transcript := v\<rparr>))"
proof -
  obtain calls1 where t: "transcribeAudio p blob = (calls1, Inr v)"
    using assms(1) by (cases "transcribeAudio p blob") simp
  show ?thesis
    by (simp add: handleProcessAudio_def t assms(2) assms(3))
qed

lemma run_empty_transcript:
  assumes "snd (transcribeAudio p blob) = Inr (Transcript [])"
  shows "handleProcessAudio p blob a0 =
           (fst (transcribeAudio p blob),
            (resetState a0)\<lparr>summary := pipeline_placeholder, status := DONE\<rparr>)"
proof -
  obtain calls1 where t: "transcribeAudio p blob = (calls1, Inr (Transcript []))"
    using assms by (cases "transcribeAudio p blob") simp
  show ?thesis
    by (simp add: handleProcessAudio_def t transcriptNonEmpty_def resetState_def)
qed

lemma run_succeeded:
  assumes "snd (transcribeAudio p blob) = Inr v" and "transcriptNonEmpty p v = Inr True"
    and "snd (summarizeText p v) = Inr sm"
  shows "handleProcessAudio p blob a0 =
           (fst (transcribeAudio p blob) @ fst (summarizeText p v),
            (resetState a0)\<lparr>transcript := v, summary := sm, status := DONE\<rparr>)"
proof -
  obtain calls1 where t: "transcribeAudio p blob = (calls1, Inr v)"
    using assms(1) by (cases "transcribeAudio p blob") simp
  obtain calls2 where s: "summarizeText p v = (calls2, Inr sm)"
    using assms(3) by (cases "summarizeText p v") simp
  show ?thesis
    by (simp add: handleProcessAudio_def t s assms(2) resetState_def)
qed

subsection \<open>The sample platforms\<close>

lemma servedBy_simps:
  "readAsDataURL (servedBy t s f) b = Inr (asc ''data:audio/webm;base64,GkXfow=='')"
  "generateContent (servedBy t s f) r = (if isSummarizationRequest r then s else t)"
  "JSON_parse (servedBy t s f) = f"
  "nonEmptyUntyped (servedBy t s f) v = Inr (v = JArray [JNull])"
  "emptyUntyped (servedBy t s f) v = (v \<noteq> JArray [JNull])"
  "textsUntyped (servedBy t s f) v = Inl nullTextRead"
  "lengthPositiveUntyped (servedBy t s f) v = Inr (v = JArray [JNull])"
  by (simp_all add: servedBy_def)

lemma sample_type: "blobType sampleBlob = webm"
  by (simp add: sampleBlob_def)

lemma sample_read: "blobToBase64 (servedBy t s f) b = Inr (Some (asc ''GkXfow==''))"
  by (simp add: blobToBase64_def servedBy_simps js_index_def asc_def)

lemma sample_transcribe_rejected:
  "transcribeAudio (servedBy (Inl e) s f) sampleBlob =
     ([TranscriptionRequest transcriptionModel transcription_instruction webm
         (Some (asc ''GkXfow=='')) (asc ''application/json'') transcriptSchema],
      Inl (Error transcription_failed_message))"
  by (simp add: transcribeAudio_def sample_read Let_def servedBy_simps sample_type)

lemma sample_transcribe_parsed:
  "transcribeAudio (servedBy (Inr t) s f) sampleBlob =
     ([TranscriptionRequest transcriptionModel transcription_instruction webm
         (Some (asc ''GkXfow=='')) (asc ''application/json'') transcriptSchema],
      case f t of Inl e \<Rightarrow> Inl (Error transcription_failed_message) | Inr v \<Rightarrow> Inr v)"
  by (simp add: transcribeAudio_def sample_read Let_def servedBy_simps sample_type split: sum.splits)

subsection \<open>Failure of the transcription\<close>

text \<open>
  C4. When the transcription call fails, the run issues no summarization request, the
  stored summary and transcript stay empty, and the run ends in \<open>IDLE\<close> with the
  error message made of the controller's prefix and the transcription-failure notice,
  which is not empty and is shown.
\<close>

theorem transcription_failure_run:
  assumes "snd (transcribeAudio p blob) = Inl e"
  shows "filter isSummarizationRequest (fst (handleProcessAudio p blob a0)) = []
       \<and> summary (snd (handleProcessAudio p blob a0)) = []
       \<and> transcript (snd (handleProcessAudio p blob a0)) = Transcript []
       \<and> status (snd (handleProcessAudio p blob a0)) = IDLE
       \<and> error (snd (handleProcessAudio p blob a0)) = error_prefix @ transcription_failed_message
       \<and> error (snd (handleProcessAudio p blob a0)) \<noteq> []
       \<and> errorShown (snd (handleProcessAudio p blob a0))"
  by (simp add: run_transcription_failed [OF assms] transcribeAudio_calls resetState_def
        error_prefix_nonempty errorShown_def)

text \<open>The transcription request is rejected: one request issued, none for a summary.\<close>

theorem transcription_failure_run_witness:
  "snd (transcribeAudio (servedBy (Inl NonError) (Inr (asc ''- ok'')) parseSegments) sampleBlob)
     = Inl (Error transcription_failed_message)
   \<and> status (snd (handleProcessAudio (servedBy (Inl NonError) (Inr (asc ''- ok'')) parseSegments)
                 sampleBlob initialApp)) = IDLE
   \<and> summary (snd (handleProcessAudio (servedBy (Inl NonError) (Inr (asc ''- ok'')) parseSegments)
                 sampleBlob initialApp)) = []
   \<and> fst (handleProcessAudio (servedBy (Inl NonError) (Inr (asc ''- ok'')) parseSegments)
                 sampleBlob initialApp)
       = [TranscriptionRequest transcriptionModel transcription_instruction webm
           (Some (asc ''GkXfow=='')) (asc ''application/json'') transcriptSchema]"
proof -
  let ?p = "servedBy (Inl NonError) (Inr (asc ''- ok'')) parseSegments"
  have h: "snd (transcribeAudio ?p sampleBlob) = Inl (Error transcription_failed_message)"
    by (simp add: sample_transcribe_rejected)
  have c: "fst (handleProcessAudio ?p sampleBlob initialApp) = fst (transcribeAudio ?p sampleBlob)"
    by (simp add: run_transcription_failed [OF h])
  show ?thesis
    using transcription_failure_run [OF h, of initialApp] h c
    by (simp add: sample_transcribe_rejected)
qed

subsection \<open>Failure of either step\<close>

lemma summarizeText_sample_rejected:
  "tr \<noteq> [] \<Longrightarrow>
   summarizeText (servedBy t (Inl e) f) (Transcript tr) =
     ([SummarizationRequest summarizationModel
         (prompt_before @ js_join newline (map segtext tr) @ prompt_after) (3 / 10)],
      Inl (Error summarization_failed_message))"
  by (simp add: summarizeText_transcript servedBy_simps)

lemma parseSegments_scenarioA: "parseSegments scenarioA_response = Inr (Transcript [scenarioA])"
proof -
  have "length scenarioA_response \<noteq> length (asc ''[]'')"
    by (simp add: scenarioA_response_def asc_def)
  then have "scenarioA_response \<noteq> asc ''[]''" by auto
  then show ?thesis by (simp add: parseSegments_def)
qed

lemma parseSegments_empty: "parseSegments (asc ''[]'') = Inr (Transcript [])"
  by (simp add: parseSegments_def)

lemma parseSegments_null: "parseSegments (asc ''[null]'') = Inr (Untyped (JArray [JNull]))"
proof -
  have a: "asc ''[null]'' \<noteq> asc ''[]''"
    by (simp add: asc_def)
  have "length (asc ''[null]'') \<noteq> length scenarioA_response"
    by (simp add: scenarioA_response_def asc_def)
  then have b: "asc ''[null]'' \<noteq> scenarioA_response" by auto
  from a b show ?thesis by (simp add: parseSegments_def)
qed

text \<open>
  C1, as the controller has it. When the transcription fails, or the summarization
  was requested and its request failed, the run ends in \<open>IDLE\<close> with a non-empty error
  message, the controller's prefix followed by the message of the step that failed; the
  stored summary is empty and the result cards are not rendered. The stored transcript
  is empty when the transcription failed; when the summarization request failed it is
  the value the transcription of this run returned, which \<open>setTranscript\<close> stored
  before the summarization began and the \<open>catch\<close> block leaves in place.
\<close>

theorem failed_run_outcome:
  assumes "snd (transcribeAudio p blob) = Inl e
           \<or> (\<exists>v req. snd (transcribeAudio p blob) = Inr v
                  \<and> transcriptNonEmpty p v = Inr True
                  \<and> summarizeText p v = ([req], Inl e))"
  shows "status (snd (handleProcessAudio p blob a0)) = IDLE
       \<and> error (snd (handleProcessAudio p blob a0)) =
           error_prefix @ (case snd (transcribeAudio p blob) of
                             Inl x \<Rightarrow> transcription_failed_message
                           | Inr v \<Rightarrow> summarization_failed_message)
       \<and> error (snd (handleProcessAudio p blob a0)) \<noteq> []
       \<and> summary (snd (handleProcessAudio p blob a0)) = []
       \<and> transcript (snd (handleProcessAudio p blob a0)) =
           (case snd (transcribeAudio p blob) of Inl x \<Rightarrow> Transcript [] | Inr v \<Rightarrow> v)
       \<and> resultsShown p (snd (handleProcessAudio p blob a0)) = Inr False"
  using assms
proof
  assume h: "snd (transcribeAudio p blob) = Inl e"
  show ?thesis
    by (simp add: run_transcription_failed [OF h] h resetState_def error_prefix_nonempty
          resultsShown_def)
next
  assume "\<exists>v req. snd (transcribeAudio p blob) = Inr v
            \<and> transcriptNonEmpty p v = Inr True \<and> summarizeText p v = ([req], Inl e)"
  then obtain v req where h1: "snd (transcribeAudio p blob) = Inr v"
    and h2: "transcriptNonEmpty p v = Inr True"
    and h3: "summarizeText p v = ([req], Inl e)" by blast
  show ?thesis
    by (simp add: run_summarization_failed [OF h1 h2 h3] h1 resetState_def
          error_prefix_nonempty resultsShown_def)
qed

text \<open>
  C1 as stated fails: the transcription answers with the segment of Scenario A, the
  summarization request is rejected, and the stored transcript after the run is that
  segment, not the empty transcript the run was reset to.
\<close>

theorem failed_run_keeps_transcript:
  "snd (transcribeAudio (servedBy (Inr scenarioA_response) (Inl NonError) parseSegments) sampleBlob)
     = Inr (Transcript [scenarioA])
   \<and> snd (summarizeText (servedBy (Inr scenarioA_response) (Inl NonError) parseSegments)
            (Transcript [scenarioA]))
     = Inl (Error summarization_failed_message)
   \<and> transcript (resetState initialApp) = Transcript []
   \<and> transcript (snd (handleProcessAudio
        (servedBy (Inr scenarioA_response) (Inl NonError) parseSegments) sampleBlob initialApp))
     = Transcript [scenarioA]
   \<and> transcript (snd (handleProcessAudio
        (servedBy (Inr scenarioA_response) (Inl NonError) parseSegments) sampleBlob initialApp))
     \<noteq> transcript (resetState initialApp)"
proof -
  let ?p = "servedBy (Inr scenarioA_response) (Inl NonError) parseSegments"
  have h1: "snd (transcribeAudio ?p sampleBlob) = Inr (Transcript [scenarioA])"
    by (simp add: sample_transcribe_parsed parseSegments_scenarioA)
  have h2: "transcriptNonEmpty ?p (Transcript [scenarioA]) = Inr True"
    by (simp add: transcriptNonEmpty_def)
  have h3: "summarizeText ?p (Transcript [scenarioA]) =
     ([SummarizationRequest summarizationModel
         (prompt_before @ js_join newline (map segtext [scenarioA]) @ prompt_after) (3 / 10)],
      Inl (Error summarization_failed_message))"
    by (rule summarizeText_sample_rejected) simp
  show ?thesis
    by (simp add: run_summarization_failed [OF h1 h2 h3] h1 h3 resetState_def)
qed

text \<open>
  The same run: \<open>IDLE\<close>, the summarization-failure message, no summary, nothing
  rendered.
\<close>

theorem failed_run_outcome_witness:
  "snd (transcribeAudio (servedBy (Inr scenarioA_response) (Inl NonError) parseSegments) sampleBlob)
     = Inr (Transcript [scenarioA])
   \<and> transcriptNonEmpty (servedBy (Inr scenarioA_response) (Inl NonError) parseSegments)
        (Transcript [scenarioA]) = Inr True
   \<and> summarizeText (servedBy (Inr scenarioA_response) (Inl NonError) parseSegments)
        (Transcript [scenarioA])
     = ([SummarizationRequest summarizationModel
           (prompt_before @ scenario_text @ prompt_after) (3 / 10)],
        Inl (Error summarization_failed_message))
   \<and> status (snd (handleProcessAudio
        (servedBy (Inr scenarioA_response) (Inl NonError) parseSegments) sampleBlob initialApp)) = IDLE
   \<and> error (snd (handleProcessAudio
        (servedBy (Inr scenarioA_response) (Inl NonError) parseSegments) sampleBlob initialApp))
       = error_prefix @ summarization_failed_message
   \<and> summary (snd (handleProcessAudio
        (servedBy (Inr scenarioA_response) (Inl NonError) parseSegments) sampleBlob initialApp)) = []
   \<and> resultsShown (servedBy (Inr scenarioA_response) (Inl NonError) parseSegments)
        (snd (handleProcessAudio
          (servedBy (Inr scenarioA_response) (Inl NonError) parseSegments) sampleBlob initialApp))
       = Inr False"
proof -
  let ?p = "servedBy (Inr scenarioA_response) (Inl NonError) parseSegments"
  let ?req = "SummarizationRequest summarizationModel
                (prompt_before @ scenario_text @ prompt_after) (3 / 10)"
  have h1: "snd (transcribeAudio ?p sampleBlob) = Inr (Transcript [scenarioA])"
    by (simp add: sample_transcribe_parsed parseSegments_scenarioA)
  have h2: "transcriptNonEmpty ?p (Transcript [scenarioA]) = Inr True"
    by (simp add: transcriptNonEmpty_def)
  have "summarizeText ?p (Transcript [scenarioA]) =
     ([SummarizationRequest summarizationModel
         (prompt_before @ js_join newline (map segtext [scenarioA]) @ prompt_after) (3 / 10)],
      Inl (Error summarization_failed_message))"
    by (rule summarizeText_sample_rejected) simp
  then have h3: "summarizeText ?p (Transcript [scenarioA]) =
     (?req # [], Inl (Error summarization_failed_message))"
    by (simp add: scenarioA_def)
  have h: "snd (transcribeAudio ?p sampleBlob) = Inl (Error summarization_failed_message)
           \<or> (\<exists>v req. snd (transcribeAudio ?p sampleBlob) = Inr v
                  \<and> transcriptNonEmpty ?p v = Inr True
                  \<and> summarizeText ?p v = ([req], Inl (Error summarization_failed_message)))"
    using h1 h2 h3 by blast
  show ?thesis
    using failed_run_outcome [OF h, of initialApp] h1 h2 h3 by simp
qed

text \<open>
  A run outside these failures: the response \<open>[null]\<close> is parsed and stored, the guard
  lets it pass, and line 89 throws before the summarization request is made. The run
  ends in \<open>IDLE\<close> with the engine's message behind the prefix; the transcription
  request is the only request issued.
\<close>

lemma null_segment_run:
  "handleProcessAudio (servedBy (Inr (asc ''[null]'')) (Inr (asc ''- ok'')) parseSegments)
     sampleBlob initialApp =
     ([TranscriptionRequest transcriptionModel transcription_instruction webm
         (Some (asc ''GkXfow=='')) (asc ''application/json'') transcriptSchema],
      initialApp\<lparr>transcript := Untyped (JArray [JNull]),
                  error := error_prefix @ null_read_message\<rparr>)"
proof -
  let ?p = "servedBy (Inr (asc ''[null]'')) (Inr (asc ''- ok'')) parseSegments"
  have h1: "snd (transcribeAudio ?p sampleBlob) = Inr (Untyped (JArray [JNull]))"
    by (simp add: sample_transcribe_parsed parseSegments_null)
  have h2: "transcriptNonEmpty ?p (Untyped (JArray [JNull])) = Inr True"
    by (simp add: transcriptNonEmpty_def servedBy_simps)
  have h3: "summarizeText ?p (Untyped (JArray [JNull])) = ([], Inl nullTextRead)"
    by (simp add: summarizeText_def transcriptEmpty_def textToSummarize_def servedBy_simps)
  show ?thesis
    by (simp add: run_threw_before_request [OF h1 h2 h3] sample_transcribe_parsed
          processingFailed_def nullTextRead_def resetState_def initialApp_def)
qed

subsection \<open>An empty transcript\<close>

text \<open>
  C3, as the controller has it. When the transcription returns an empty transcript, the
  controller sets the summary to its own fixed placeholder (\<open>pipeline_placeholder\<close>,
  the literal of the \<open>else\<close> branch in \<open>handleProcessAudio\<close>), issues no summarization
  request and ends in \<open>DONE\<close>.
\<close>

theorem empty_transcript_run:
  assumes "snd (transcribeAudio p blob) = Inr (Transcript [])"
  shows "summary (snd (handleProcessAudio p blob a0)) = pipeline_placeholder
       \<and> filter isSummarizationRequest (fst (handleProcessAudio p blob a0)) = []
       \<and> status (snd (handleProcessAudio p blob a0)) = DONE
       \<and> transcript (snd (handleProcessAudio p blob a0)) = Transcript []
       \<and> error (snd (handleProcessAudio p blob a0)) = []"
  by (simp add: run_empty_transcript [OF assms] transcribeAudio_calls resetState_def)

lemma placeholders_differ: "pipeline_placeholder \<noteq> summary_placeholder"
  by (simp add: pipeline_placeholder_def summary_placeholder_def)

text \<open>
  C3 as stated fails: the response \<open>[]\<close> parses to the empty transcript, and the
  summary the run stores is not the placeholder of \<open>summarizeText\<close>.
\<close>

theorem placeholder_of_the_controller_differs:
  "snd (transcribeAudio (servedBy (Inr (asc ''[]'')) (Inr (asc ''- ok'')) parseSegments) sampleBlob)
     = Inr (Transcript [])
   \<and> summary (snd (handleProcessAudio
        (servedBy (Inr (asc ''[]'')) (Inr (asc ''- ok'')) parseSegments) sampleBlob initialApp))
     \<noteq> summary_placeholder"
proof -
  let ?p = "servedBy (Inr (asc ''[]'')) (Inr (asc ''- ok'')) parseSegments"
  have h: "snd (transcribeAudio ?p sampleBlob) = Inr (Transcript [])"
    by (simp add: sample_transcribe_parsed parseSegments_empty)
  show ?thesis
    by (simp add: run_empty_transcript [OF h] h placeholders_differ)
qed

text \<open>
  The same run in full: one transcription request, the reset state with the
  controller's placeholder and \<open>DONE\<close>.
\<close>

theorem empty_transcript_run_witness:
  "snd (transcribeAudio (servedBy (Inr (asc ''[]'')) (Inr (asc ''- ok'')) parseSegments) sampleBlob)
     = Inr (Transcript [])
   \<and> handleProcessAudio (servedBy (Inr (asc ''[]'')) (Inr (asc ''- ok'')) parseSegments)
        sampleBlob initialApp
     = ([TranscriptionRequest transcriptionModel transcription_instruction webm
           (Some (asc ''GkXfow=='')) (asc ''application/json'') transcriptSchema],
        initialApp\<lparr>summary := pipeline_placeholder, status := DONE\<rparr>)
   \<and> summary (snd (handleProcessAudio (servedBy (Inr (asc ''[]'')) (Inr (asc ''- ok'')) parseSegments)
        sampleBlob initialApp)) = pipeline_placeholder"
proof -
  let ?p = "servedBy (Inr (asc ''[]'')) (Inr (asc ''- ok'')) parseSegments"
  have h: "snd (transcribeAudio ?p sampleBlob) = Inr (Transcript [])"
    by (simp add: sample_transcribe_parsed parseSegments_empty)
  have r: "handleProcessAudio ?p sampleBlob initialApp
     = ([TranscriptionRequest transcriptionModel transcription_instruction webm
           (Some (asc ''GkXfow=='')) (asc ''application/json'') transcriptSchema],
        initialApp\<lparr>summary := pipeline_placeholder, status := DONE\<rparr>)"
    by (simp add: run_empty_transcript [OF h] sample_transcribe_parsed resetState_def initialApp_def)
  show ?thesis
    using empty_transcript_run [OF h, of initialApp] h r by simp
qed

section \<open>The model service\<close>

subsection \<open>Summarization\<close>

text \<open>
  C5. \<open>summarizeText\<close> on the empty transcript returns its placeholder and issues no
  request.
\<close>

theorem summarizeText_empty:
  "summarizeText p (Transcript []) = ([], Inr summary_placeholder)"
  by (simp add: summarizeText_def transcriptEmpty_def)

text \<open>
  On a platform whose summarization request would be rejected: no request, and the
  placeholder code unit by code unit.
\<close>

theorem summarizeText_empty_witness:
  "fst (summarizeText (servedBy (Inr (asc ''[]'')) (Inl NonError) parseSegments)
          (Transcript [])) = []
   \<and> snd (summarizeText (servedBy (Inr (asc ''[]'')) (Inl NonError) parseSegments)
          (Transcript [])) =
       Inr [0x0E44, 0x0E21, 0x0E48, 0x0E21, 0x0E35, 0x0E02, 0x0E49, 0x0E2D, 0x0E04, 0x0E27,
            0x0E32, 0x0E21, 0x0E43, 0x0E2B, 0x0E49, 0x0E2A, 0x0E23, 0x0E38, 0x0E1B]"
  using summarizeText_empty [of "servedBy (Inr (asc ''[]'')) (Inl NonError) parseSegments"]
  by (simp add: summary_placeholder_def)

lemma js_split_no_separator: "c \<notin> set x \<Longrightarrow> js_split c x = [x]"
  by (induction x) auto

lemma js_split_at_separator:
  "c \<notin> set x \<Longrightarrow> js_split c (x @ c # rest) = x # js_split c rest"
  by (induction x) auto

lemma js_split_js_join:
  "xs \<noteq> [] \<Longrightarrow> \<forall>x\<in>set xs. c \<notin> set x \<Longrightarrow> js_split c (js_join [c] xs) = xs"
proof (induction "[c]" xs rule: js_join.induct)
  case 1
  then show ?case by simp
next
  case (2 x)
  then show ?case by (simp add: js_split_no_separator)
next
  case (3 x y ys)
  then show ?case by (simp add: js_split_at_separator)
qed

text \<open>
  C6. For a non-empty transcript the one request issued carries the prompt whose
  document is the texts of the segments joined by single newlines: one text per
  segment, the \<open>i\<close>-th text that of the \<open>i\<close>-th segment, and, where no text
  contains a newline itself, splitting the document at the newlines gives the texts
  back, none missing, repeated or moved.
\<close>

theorem summarization_document:
  assumes "tr \<noteq> []"
  shows "fst (summarizeText p (Transcript tr)) =
           [SummarizationRequest summarizationModel
              (prompt_before @ js_join newline (map segtext tr) @ prompt_after) (3 / 10)]
       \<and> length (map segtext tr) = length tr
       \<and> (\<forall>i < length tr. map segtext tr ! i = segtext (tr ! i))
       \<and> ((\<forall>seg \<in> set tr. 0x000A \<notin> set (segtext seg)) \<longrightarrow>
            js_split 0x000A (js_join newline (map segtext tr)) = map segtext tr)"
proof -
  have a: "fst (summarizeText p (Transcript tr)) =
           [SummarizationRequest summarizationModel
              (prompt_before @ js_join newline (map segtext tr) @ prompt_after) (3 / 10)]"
    using assms by (simp add: summarizeText_transcript)
  have b: "(\<forall>seg \<in> set tr. 0x000A \<notin> set (segtext seg)) \<longrightarrow>
            js_split 0x000A (js_join newline (map segtext tr)) = map segtext tr"
  proof
    assume h: "\<forall>seg \<in> set tr. 0x000A \<notin> set (segtext seg)"
    have "js_split 0x000A (js_join [0x000A] (map segtext tr)) = map segtext tr"
      by (rule js_split_js_join) (use assms h in auto)
    then show "js_split 0x000A (js_join newline (map segtext tr)) = map segtext tr"
      by (simp add: newline_def)
  qed
  from a b show ?thesis by simp
qed

text \<open>
  The two segments of Scenario D, texts \<open>A\<close> and \<open>B\<close>.
\<close>

theorem summarization_document_witness:
  "[scenarioD1, scenarioD2] \<noteq> []
   \<and> fst (summarizeText (servedBy (Inr (asc ''[]'')) (Inr (asc ''- ok'')) parseSegments)
            (Transcript [scenarioD1, scenarioD2])) =
       [SummarizationRequest summarizationModel
          (prompt_before @ asc ''A'' @ newline @ asc ''B'' @ prompt_after) (3 / 10)]
   \<and> js_split 0x000A (asc ''A'' @ newline @ asc ''B'') = [asc ''A'', asc ''B'']"
proof -
  have h: "[scenarioD1, scenarioD2] \<noteq> []" by simp
  show ?thesis
    using summarization_document [OF h, of "servedBy (Inr (asc ''[]'')) (Inr (asc ''- ok'')) parseSegments"]
    by (simp add: scenarioD1_def scenarioD2_def asc_def newline_def)
qed

subsection \<open>Transcription\<close>

text \<open>
  C2, as the service has it. Once the audio has been read, \<open>transcribeAudio\<close> issues
  one request and fails exactly when the request is rejected or the response text does
  not parse; every failure is the one error with the transcription-failure message; a
  response that parses is returned whole, as parsed. The schema goes out with the
  request, and the parsed value is not checked against it.
\<close>

theorem transcribeAudio_failure_cases:
  fixes p :: "(json, 'b) platform_scheme"
  assumes "blobToBase64 p blob = Inr base64Audio"
  shows "fst (transcribeAudio p blob) =
           [TranscriptionRequest transcriptionModel transcription_instruction (blobType blob)
              base64Audio (asc ''application/json'') transcriptSchema]
       \<and> ((snd (transcribeAudio p blob) = Inl (Error transcription_failed_message)) =
            ((\<exists>e. generateContent p (TranscriptionRequest transcriptionModel
                      transcription_instruction (blobType blob) base64Audio
                      (asc ''application/json'') transcriptSchema) = Inl e)
             \<or> (\<exists>t e. generateContent p (TranscriptionRequest transcriptionModel
                      transcription_instruction (blobType blob) base64Audio
                      (asc ''application/json'') transcriptSchema) = Inr t
                    \<and> JSON_parse p t = Inl e)))
       \<and> (\<forall>e. snd (transcribeAudio p blob) = Inl e \<longrightarrow> e = Error transcription_failed_message)
       \<and> (\<forall>t v. generateContent p (TranscriptionRequest transcriptionModel
                      transcription_instruction (blobType blob) base64Audio
                      (asc ''application/json'') transcriptSchema) = Inr t
                \<and> JSON_parse p t = Inr v \<longrightarrow> snd (transcribeAudio p blob) = Inr v)"
  using assms
  by (auto simp: transcribeAudio_def Let_def split: sum.splits)

lemma parseJson_object: "parseJson (asc ''{}'') = Inr (JObject [])"
  by (simp add: parseJson_def asc_def)

lemma parseJson_markup: "parseJson (asc ''<html>'') = Inl syntaxError"
  by (simp add: parseJson_def asc_def)

text \<open>
  C2 as stated fails: the response \<open>{}\<close> is valid JSON, does not conform to the
  transcript schema, and is returned.
\<close>

theorem schema_mismatch_accepted:
  "generateContent (servedBy (Inr (asc ''{}'')) (Inl NonError) parseJson)
     (TranscriptionRequest transcriptionModel transcription_instruction (blobType sampleBlob)
        (Some (asc ''GkXfow=='')) (asc ''application/json'') transcriptSchema) = Inr (asc ''{}'')
   \<and> JSON_parse (servedBy (Inr (asc ''{}'')) (Inl NonError) parseJson) (asc ''{}'') = Inr (JObject [])
   \<and> \<not> conforms transcriptSchema (JObject [])
   \<and> transcribeAudio (servedBy (Inr (asc ''{}'')) (Inl NonError) parseJson) sampleBlob =
       ([TranscriptionRequest transcriptionModel transcription_instruction webm
           (Some (asc ''GkXfow=='')) (asc ''application/json'') transcriptSchema],
        Inr (JObject []))"
  by (simp add: servedBy_simps parseJson_object sample_transcribe_parsed transcriptSchema_def)

text \<open>
  A response that is not JSON: the request is issued and the operation fails.
\<close>

theorem transcribeAudio_failure_cases_witness:
  "blobToBase64 (servedBy (Inr (asc ''<html>'')) (Inl NonError) parseJson) sampleBlob
     = Inr (Some (asc ''GkXfow==''))
   \<and> snd (transcribeAudio (servedBy (Inr (asc ''<html>'')) (Inl NonError) parseJson) sampleBlob)
     = Inl (Error transcription_failed_message)
   \<and> fst (transcribeAudio (servedBy (Inr (asc ''<html>'')) (Inl NonError) parseJson) sampleBlob)
     = [TranscriptionRequest transcriptionModel transcription_instruction webm
           (Some (asc ''GkXfow=='')) (asc ''application/json'') transcriptSchema]"
proof -
  let ?p = "servedBy (Inr (asc ''<html>'')) (Inl NonError) parseJson"
  have h: "blobToBase64 ?p sampleBlob = Inr (Some (asc ''GkXfow==''))"
    by (rule sample_read)
  have g: "generateContent ?p (TranscriptionRequest transcriptionModel
             transcription_instruction (blobType sampleBlob) (Some (asc ''GkXfow==''))
             (asc ''application/json'') transcriptSchema) = Inr (asc ''<html>'')"
    by (simp add: servedBy_simps)
  have j: "JSON_parse ?p (asc ''<html>'') = Inl syntaxError"
    by (simp add: servedBy_simps parseJson_markup)
  have "snd (transcribeAudio ?p sampleBlob) = Inl (Error transcription_failed_message)"
    using transcribeAudio_failure_cases [OF h] g j by blast
  moreover have "fst (transcribeAudio ?p sampleBlob)
     = [TranscriptionRequest transcriptionModel transcription_instruction webm
           (Some (asc ''GkXfow=='')) (asc ''application/json'') transcriptSchema]"
    using transcribeAudio_failure_cases [OF h] by (simp add: sample_type)
  ultimately show ?thesis using h by simp
qed

section \<open>Audio capture\<close>

text \<open>
  C8. When microphone access is refused, \<open>startRecording\<close> raises the microphone
  alert and changes nothing else: the recording flag keeps its value (stays false when
  it was false), no payload is produced, the chunk buffer and the recorder are
  untouched. The flag turns from false to true only in a call whose access was granted.
\<close>

theorem microphone_denied:
  "startRecording (Denied e) outcome r = r\<lparr>alerts := alerts r @ [microphone_alert]\<rparr>
   \<and> isRecording (startRecording (Denied e) outcome r) = isRecording r
   \<and> (\<not> isRecording r \<longrightarrow> \<not> isRecording (startRecording (Denied e) outcome r))
   \<and> audioBlob (startRecording (Denied e) outcome r) = audioBlob r
   \<and> audioChunksRef (startRecording (Denied e) outcome r) = audioChunksRef r
   \<and> mediaRecorderRef (startRecording (Denied e) outcome r) = mediaRecorderRef r
   \<and> (\<not> isRecording r \<and> isRecording (startRecording access outcome r)
        \<longrightarrow> (\<exists>stream. access = Granted stream))"
  by (cases access; cases outcome) (simp_all add: startRecording_def)

text \<open>
  From the initial state: the alert, the flag still false, no payload, and a
  \<open>stopRecording\<close> that does nothing; with access granted the flag is set.
\<close>

theorem microphone_denied_witness:
  "\<not> isRecording initialRecorder
   \<and> startRecording (Denied NonError) Started initialRecorder =
       initialRecorder\<lparr>alerts := [microphone_alert]\<rparr>
   \<and> \<not> isRecording (startRecording (Denied NonError) Started initialRecorder)
   \<and> audioBlob (startRecording (Denied NonError) Started initialRecorder) = None
   \<and> stopRecording (startRecording (Denied NonError) Started initialRecorder) =
       startRecording (Denied NonError) Started initialRecorder
   \<and> isRecording (startRecording (Granted 0) Started initialRecorder)"
proof -
  have h: "\<not> isRecording initialRecorder" by (simp add: initialRecorder_def)
  have g: "isRecording (startRecording (Granted 0) Started initialRecorder)"
    by (simp add: startRecording_def Let_def)
  have s: "stopRecording (initialRecorder\<lparr>alerts := [microphone_alert]\<rparr>) =
           initialRecorder\<lparr>alerts := [microphone_alert]\<rparr>"
    by (simp add: stopRecording_def initialRecorder_def)
  show ?thesis
    using microphone_denied [of NonError Started initialRecorder "Granted 0"] h g s
    by (simp add: initialRecorder_def)
qed

lemma deliver_append: "deliver (ds1 @ ds2) r = deliver ds2 (deliver ds1 r)"
  by (induction ds1 arbitrary: r) simp_all

lemma deliver_chunks:
  "audioChunksRef (deliver ds r) = audioChunksRef r @ nonEmptyChunks ds"
  by (induction ds arbitrary: r rule: nonEmptyChunks.induct) (simp_all add: on_dataavailable_def)

lemma deliver_keeps:
  "isRecording (deliver ds r) = isRecording r"
  "audioBlob (deliver ds r) = audioBlob r"
  "mediaRecorderRef (deliver ds r) = mediaRecorderRef r"
  by (induction ds arbitrary: r; simp add: on_dataavailable_def split: option.splits)+

lemma nonEmptyChunks_append:
  "nonEmptyChunks (ds1 @ ds2) = nonEmptyChunks ds1 @ nonEmptyChunks ds2"
  by (induction ds1 rule: nonEmptyChunks.induct) simp_all

lemma nonEmptyChunks_filter:
  "nonEmptyChunks ds =
     filter (\<lambda>c. blobSize c \<noteq> 0)
       (concat (map (\<lambda>d. case d of None \<Rightarrow> [] | Some c \<Rightarrow> [c]) ds))"
  by (induction ds rule: nonEmptyChunks.induct) simp_all

text \<open>
  C10. A granted \<open>startRecording\<close> clears the payload and empties the chunk buffer,
  whatever they held. Through the cycle that follows (events \<open>ds1\<close>,
  \<open>stopRecording\<close>, events \<open>ds2\<close>, the stop event) the buffer holds exactly the
  chunks delivered in the cycle that are defined and not empty, in arrival order; no
  payload exists before the stop event, and the payload it delivers is the blob of
  these chunks.
\<close>

theorem cycle_payload:
  "audioBlob (startRecording (Granted stream) outcome r0) = None
   \<and> audioChunksRef (startRecording (Granted stream) outcome r0) = []
   \<and> audioBlob (deliver ds2 (stopRecording
         (deliver ds1 (startRecording (Granted stream) Started r0)))) = None
   \<and> audioChunksRef (deliver ds2 (stopRecording
         (deliver ds1 (startRecording (Granted stream) Started r0))))
       = nonEmptyChunks (ds1 @ ds2)
   \<and> audioBlob (on_stop stream
        (deliver ds2 (stopRecording (deliver ds1 (startRecording (Granted stream) Started r0)))))
       = Some (newBlob (nonEmptyChunks (ds1 @ ds2)) webm)
   \<and> nonEmptyChunks (ds1 @ ds2) =
       filter (\<lambda>c. blobSize c \<noteq> 0)
         (concat (map (\<lambda>d. case d of None \<Rightarrow> [] | Some c \<Rightarrow> [c]) (ds1 @ ds2)))"
proof -
  let ?r1 = "startRecording (Granted stream) Started r0"
  have a: "audioBlob ?r1 = None" and b: "audioChunksRef ?r1 = []"
    and m: "mediaRecorderRef ?r1 = Some stream"
    by (simp_all add: startRecording_def Let_def)
  have a': "audioBlob (startRecording (Granted stream) outcome r0) = None"
    and b': "audioChunksRef (startRecording (Granted stream) outcome r0) = []"
    by (cases outcome; simp add: startRecording_def Let_def)+
  have m1: "mediaRecorderRef (deliver ds1 ?r1) = Some stream"
    by (simp add: deliver_keeps m)
  have st: "stopRecording (deliver ds1 ?r1) = (deliver ds1 ?r1)\<lparr>isRecording := False\<rparr>"
    by (simp add: stopRecording_def m1)
  have c: "audioChunksRef (deliver ds2 (stopRecording (deliver ds1 ?r1))) = nonEmptyChunks (ds1 @ ds2)"
    by (simp add: deliver_chunks st b nonEmptyChunks_append)
  have d: "audioBlob (deliver ds2 (stopRecording (deliver ds1 ?r1))) = None"
    by (simp add: deliver_keeps st a)
  have e: "audioBlob (on_stop stream (deliver ds2 (stopRecording (deliver ds1 ?r1))))
             = Some (newBlob (nonEmptyChunks (ds1 @ ds2)) webm)"
    by (simp add: on_stop_def c)
  from a' b' c d e nonEmptyChunks_filter [of "ds1 @ ds2"] show ?thesis by simp
qed

text \<open>
  Two cycles one after the other: the second payload holds the bytes of its own two
  non-empty chunks and none of the first cycle.
\<close>

theorem cycle_payload_witness:
  "audioBlob (on_stop 0 (deliver [Some chunkA] (stopRecording
       (startRecording (Granted 0) Started initialRecorder))))
     = Some \<lparr>blobBytes = [0x01, 0x02], blobType = webm\<rparr>
   \<and> audioBlob (on_stop 1 (deliver [Some emptyChunk, Some chunkC] (stopRecording
       (deliver [None, Some chunkB]
       (startRecording (Granted 1) Started
          (on_stop 0 (deliver [Some chunkA] (stopRecording
             (startRecording (Granted 0) Started initialRecorder)))))))))
     = Some \<lparr>blobBytes = [0x03, 0x04, 0x05], blobType = webm\<rparr>"
proof -
  have n1: "nonEmptyChunks ([] @ [Some chunkA]) = [chunkA]"
    by (simp add: chunkA_def blobSize_def)
  have n2: "nonEmptyChunks ([None, Some chunkB] @ [Some emptyChunk, Some chunkC]) = [chunkB, chunkC]"
    by (simp add: chunkB_def chunkC_def emptyChunk_def blobSize_def)
  have b1: "newBlob [chunkA] webm = \<lparr>blobBytes = [0x01, 0x02], blobType = webm\<rparr>"
    by (simp add: newBlob_def chunkA_def)
  have b2: "newBlob [chunkB, chunkC] webm = \<lparr>blobBytes = [0x03, 0x04, 0x05], blobType = webm\<rparr>"
    by (simp add: newBlob_def chunkB_def chunkC_def)
  show ?thesis
    using cycle_payload [where stream = 0 and outcome = Started
            and ?r0.0 = initialRecorder and ?ds1.0 = "[]" and ?ds2.0 = "[Some chunkA]"]
      cycle_payload [where stream = 1 and outcome = Started
            and ?r0.0 = "on_stop 0 (deliver [Some chunkA] (stopRecording
                           (startRecording (Granted 0) Started initialRecorder)))"
            and ?ds1.0 = "[None, Some chunkB]" and ?ds2.0 = "[Some emptyChunk, Some chunkC]"]
    unfolding n1 n2 b1 b2 by simp
qed

section \<open>The status of the controller\<close>

lemma app_step_status:
  "app_step a a' \<Longrightarrow> status a \<noteq> RECORDING \<Longrightarrow> status a' \<noteq> RECORDING"
  by (induction rule: app_step.induct) (simp_all add: resetState_def processingFailed_def)

lemma page_step_status:
  "page_step s s' \<Longrightarrow> status (fst s) \<noteq> RECORDING \<Longrightarrow> status (fst s') \<noteq> RECORDING"
  by (induction rule: page_step.induct) (simp_all add: app_step_status)

lemma not_recording_cases: "(st \<noteq> RECORDING) = (st \<in> {IDLE, PROCESSING, DONE})"
  by (cases st) simp_all

text \<open>
  C9. In every reachable state of the page the status of the controller is
  \<open>IDLE\<close>, \<open>PROCESSING\<close> or \<open>DONE\<close>, never \<open>RECORDING\<close>. Recording shows
  in the other component of the state, the recorder's flag \<open>isRecording\<close>.
\<close>

theorem status_never_recording:
  assumes "reachable s"
  shows "status (fst s) \<in> {IDLE, PROCESSING, DONE} \<and> status (fst s) \<noteq> RECORDING"
proof -
  have "page_step\<^sup>*\<^sup>* (initialApp, initialRecorder) s"
    using assms by (simp add: reachable_def)
  then have "status (fst s) \<noteq> RECORDING"
  proof (induction rule: rtranclp_induct)
    case base
    show ?case by (simp add: initialApp_def)
  next
    case (step y z)
    then show ?case using page_step_status by blast
  qed
  then show ?thesis by (simp add: not_recording_cases)
qed

text \<open>Every run of the controller is a sequence of these steps.\<close>

lemma handleProcessAudio_steps: "app_step\<^sup>*\<^sup>* a (snd (handleProcessAudio p blob a))"
proof -
  let ?a1 = "(resetState a)\<lparr>status := PROCESSING\<rparr>"
  have s1: "app_step\<^sup>*\<^sup>* a ?a1"
    using call_resetState [of a] call_setStatus_PROCESSING [of "resetState a"] by auto
  obtain calls1 res where t: "transcribeAudio p blob = (calls1, res)"
    by (cases "transcribeAudio p blob")
  show ?thesis
  proof (cases res)
    case (Inl err)
    have "app_step ?a1 (processingFailed err ?a1)" by (rule call_catch)
    with s1 have "app_step\<^sup>*\<^sup>* a (processingFailed err ?a1)" by auto
    then show ?thesis by (simp add: handleProcessAudio_def t Inl)
  next
    case (Inr v)
    let ?a2 = "?a1\<lparr>transcript := v\<rparr>"
    have s2: "app_step\<^sup>*\<^sup>* a ?a2"
      using s1 call_setTranscript [of ?a1 v] by auto
    show ?thesis
    proof (cases "transcriptNonEmpty p v")
      case g: (Inl err)
      have "app_step ?a2 (processingFailed err ?a2)" by (rule call_catch)
      with s2 have "app_step\<^sup>*\<^sup>* a (processingFailed err ?a2)" by auto
      then show ?thesis by (simp add: handleProcessAudio_def t Inr g)
    next
      case g: (Inr nonEmpty)
      show ?thesis
      proof (cases nonEmpty)
        case False
        have "app_step ?a2 (?a2\<lparr>summary := pipeline_placeholder\<rparr>)" by (rule call_setSummary)
        moreover have "app_step (?a2\<lparr>summary := pipeline_placeholder\<rparr>)
                         (?a2\<lparr>summary := pipeline_placeholder, status := DONE\<rparr>)"
          using call_setStatus_DONE [of "?a2\<lparr>summary := pipeline_placeholder\<rparr>"] by simp
        ultimately have
          "app_step\<^sup>*\<^sup>* a (?a2\<lparr>summary := pipeline_placeholder, status := DONE\<rparr>)"
          using s2 by (meson rtranclp.rtrancl_into_rtrancl)
        then show ?thesis by (simp add: handleProcessAudio_def t Inr g False)
      next
        case True
        obtain calls2 res2 where s: "summarizeText p v = (calls2, res2)"
          by (cases "summarizeText p v")
        show ?thesis
        proof (cases res2)
          case (Inl err)
          have "app_step ?a2 (processingFailed err ?a2)" by (rule call_catch)
          with s2 have "app_step\<^sup>*\<^sup>* a (processingFailed err ?a2)" by auto
          then show ?thesis by (simp add: handleProcessAudio_def t Inr g True s Inl)
        next
          case r: (Inr sm)
          have "app_step ?a2 (?a2\<lparr>summary := sm\<rparr>)" by (rule call_setSummary)
          moreover have "app_step (?a2\<lparr>summary := sm\<rparr>) (?a2\<lparr>summary := sm, status := DONE\<rparr>)"
            using call_setStatus_DONE [of "?a2\<lparr>summary := sm\<rparr>"] by simp
          ultimately have "app_step\<^sup>*\<^sup>* a (?a2\<lparr>summary := sm, status := DONE\<rparr>)"
            using s2 by (meson rtranclp.rtrancl_into_rtrancl)
          then show ?thesis by (simp add: handleProcessAudio_def t Inr g True s r)
        qed
      qed
    qed
  qed
qed

lemma controller_steps: "app_step\<^sup>*\<^sup>* a a' \<Longrightarrow> page_step\<^sup>*\<^sup>* (a, r) (a', r)"
proof (induction rule: rtranclp_induct)
  case base
  show ?case by simp
next
  case (step y z)
  then show ?case using controller_step [of y z r] by (meson rtranclp.rtrancl_into_rtrancl)
qed

lemma run_reachable:
  "reachable (a, r) \<Longrightarrow> reachable (snd (handleProcessAudio p blob a), r)"
  unfolding reachable_def
  using controller_steps [OF handleProcessAudio_steps, of a r p blob] by (meson rtranclp_trans)

lemma capture_reachable:
  "reachable (a, r) \<Longrightarrow> recorder_step r r' \<Longrightarrow> reachable (a, r')"
  unfolding reachable_def
  using capture_step [of r r' a] by (meson rtranclp.rtrancl_into_rtrancl)

lemma initial_reachable: "reachable (initialApp, initialRecorder)"
  by (simp add: reachable_def)

text \<open>
  After a granted \<open>startRecording\<close> the recorder's flag is set and the status is
  still \<open>IDLE\<close>.
\<close>

theorem status_never_recording_witness:
  "reachable (initialApp, startRecording (Granted 0) Started initialRecorder)
   \<and> isRecording (startRecording (Granted 0) Started initialRecorder)
   \<and> status (fst (initialApp, startRecording (Granted 0) Started initialRecorder)) = IDLE"
proof -
  have r: "reachable (initialApp, startRecording (Granted 0) Started initialRecorder)"
    using capture_reachable [OF initial_reachable call_startRecording] .
  have g: "isRecording (startRecording (Granted 0) Started initialRecorder)"
    by (simp add: startRecording_def Let_def)
  show ?thesis
    using status_never_recording [OF r] r g by (simp add: initialApp_def)
qed

end
